theory Spec2Isabelle
  imports Complex_Main "HOL-Library.AList" "HOL-Library.Sublist"
begin

section \<open>Conventions of the embedding\<close>

text \<open>
  The development embeds three Python modules of the repository:
  \<^verbatim>\<open>advanced_cellular_security.py\<close> (the advanced detectors),
  \<^verbatim>\<open>cellular_security.py\<close> (tower registry and encryption detector) and
  \<^verbatim>\<open>cellular_remote_server.py\<close> (the aggregation server).

  \<^item> Python \<^verbatim>\<open>int\<close> is \<^typ>\<open>int\<close>; a Python \<^verbatim>\<open>float\<close> is the rational number
    its decimal literal denotes (\<^typ>\<open>rat\<close>), so float rounding is not modelled.
  \<^item> A \<^verbatim>\<open>datetime\<close> on the edge is an \<^typ>\<open>int\<close> counting microseconds;
    \<^verbatim>\<open>total_seconds()\<close> of a difference is that difference divided by 1000000.
  \<^item> \<^verbatim>\<open>int(time.time())\<close>, \<^verbatim>\<open>datetime.now()\<close> and \<^verbatim>\<open>uuid.uuid4()\<close>
    are inputs of the functions that call them.
  \<^item> An \<^verbatim>\<open>Optional[T]\<close> field is a \<^typ>\<open>'a option\<close>; a dict is an association list.
  \<^item> A method \<^verbatim>\<open>_name\<close> of the source is the constant \<^verbatim>\<open>name\<close>: an Isabelle
    name cannot start with an underscore. Field names shared by several dataclasses
    carry a prefix of their class (\<^verbatim>\<open>tw_\<close>, \<^verbatim>\<open>cm_\<close>, \<^verbatim>\<open>am_\<close>, \<^verbatim>\<open>st_\<close>,
    \<^verbatim>\<open>rt_\<close>, \<^verbatim>\<open>di_\<close>); the keys of a message carry \<^verbatim>\<open>td_\<close> or
    \<^verbatim>\<open>rd_\<close>, the columns of a table \<^verbatim>\<open>row_\<close> or \<^verbatim>\<open>sr_\<close>.
  \<^item> The free-text fields \<^verbatim>\<open>description\<close> and \<^verbatim>\<open>mitigation_advice\<close> of a
    \<^verbatim>\<open>SecurityThreat\<close> are display text that no decision reads; they are left out.
\<close>

section \<open>Python values and helpers\<close>

datatype pyval = PInt int | PFloat rat | PStr string | PList "pyval list"

type_synonym pydict = "(string \<times> pyval) list"

fun str_nat :: "nat \<Rightarrow> string" where
  "str_nat n =
     (if n < 10 then [''0123456789'' ! n]
      else str_nat (n div 10) @ [''0123456789'' ! (n mod 10)])"

declare str_nat.simps [simp del]

definition str_int :: "int \<Rightarrow> string" where
  "str_int i = (if i < 0 then CHR ''-'' # str_nat (nat (- i)) else str_nat (nat i))"

text \<open>\<^verbatim>\<open>xs[-k:]\<close>: the last \<open>k\<close> elements, the whole list when it is shorter.\<close>

definition last_n :: "nat \<Rightarrow> 'a list \<Rightarrow> 'a list" where
  "last_n k xs = drop (length xs - k) xs"

text \<open>\<^verbatim>\<open>max(xs)\<close> of a list; the callers guard against the empty list.\<close>

fun py_max :: "int list \<Rightarrow> int" where
  "py_max [] = 0"
| "py_max (x # xs) = fold max xs x"

text \<open>
  \<^verbatim>\<open>deque(maxlen=n).append(x)\<close>: append on the right, dropping from the left what
  exceeds the capacity.
\<close>

definition deque_append :: "nat \<Rightarrow> 'a list \<Rightarrow> 'a \<Rightarrow> 'a list" where
  "deque_append maxlen xs x = last_n maxlen (xs @ [x])"

section \<open>Data model of the edge agent\<close>

record CellularTower =
  cell_id :: string
  lac :: string
  mcc :: string
  mnc :: string
  tw_technology :: string
  frequency :: "rat option"
  tw_location :: "(rat \<times> rat) option"
  first_seen :: int
  tw_last_seen :: int
  signal_strength_history :: "int list"

record CellularMeasurement =
  cm_timestamp :: int
  cm_tower :: CellularTower
  cm_signal_strength :: int
  cm_signal_quality :: "int option"
  cm_technology :: string
  encryption_status :: string
  serving_tower :: bool
  neighbor_towers :: "CellularTower list"
  cm_location :: "(rat \<times> rat) option"
  device_movement_speed :: "rat option"

record SecurityThreat =
  threat_id :: string
  threat_type :: string
  severity :: string
  st_timestamp :: int
  evidence :: pydict
  confidence :: rat
  st_location :: "(rat \<times> rat) option"
  affected_towers :: "string list"

text \<open>
  \<^verbatim>\<open>AdvancedCellularMetrics\<close> after \<^verbatim>\<open>__post_init__\<close>: a \<^verbatim>\<open>neighbor_cells\<close> or
  \<^verbatim>\<open>ca_bands\<close> given as \<^verbatim>\<open>None\<close> has become the empty list.
\<close>

record AdvancedCellularMetrics =
  am_timestamp :: int
  am_tower :: CellularTower
  am_signal_strength :: int
  am_signal_quality :: int
  timing_advance :: "int option"
  frame_number :: "int option"
  arfcn :: "int option"
  pci :: "int option"
  rsrp :: "rat option"
  rsrq :: "rat option"
  sinr :: "rat option"
  cqi :: "int option"
  neighbor_cells :: "pydict list"
  uplink_power :: "int option"
  downlink_frequency :: "rat option"
  uplink_frequency :: "rat option"
  band :: "string option"
  ca_bands :: "string list"

text \<open>
  A threat as the detectors build it: \<^verbatim>\<open>location\<close> and \<^verbatim>\<open>affected_towers\<close> keep
  their defaults (\<^verbatim>\<open>None\<close>, \<^verbatim>\<open>[]\<close>) unless a detector passes them.
\<close>

definition mk_threat ::
  "string \<Rightarrow> string \<Rightarrow> string \<Rightarrow> int \<Rightarrow> pydict \<Rightarrow> rat \<Rightarrow> SecurityThreat" where
  "mk_threat tid ty sev ts ev conf =
     \<lparr>threat_id = tid, threat_type = ty, severity = sev, st_timestamp = ts,
      evidence = ev, confidence = conf, st_location = None, affected_towers = []\<rparr>"

section \<open>Advanced detectors\<close>

text \<open>
  Every detector reads \<^verbatim>\<open>self.measurement_buffer\<close> (the argument \<open>buf\<close>, oldest
  first; \<^verbatim>\<open>analyze_advanced_metrics\<close> has already appended the current sample) and
  the clock \<^verbatim>\<open>int(time.time())\<close> (the argument \<open>now\<close>).
\<close>

definition analyze_advanced_metrics_buffer ::
  "AdvancedCellularMetrics list \<Rightarrow> AdvancedCellularMetrics \<Rightarrow> AdvancedCellularMetrics list" where
  "analyze_advanced_metrics_buffer buf metrics = deque_append 1000 buf metrics"

definition ta_zero_threat :: "AdvancedCellularMetrics \<Rightarrow> int \<Rightarrow> int \<Rightarrow> SecurityThreat" where
  "ta_zero_threat metrics ta now =
     mk_threat (''TA_ZERO_'' @ str_int now) ''TIMING_ADVANCE_ZERO'' ''medium''
       (am_timestamp metrics)
       [(''timing_advance'', PInt ta),
        (''tower_id'', PStr (cell_id (am_tower metrics))),
        (''signal_strength'', PInt (am_signal_strength metrics))]
       (6 / 10)"

definition ta_impossible_threat ::
  "AdvancedCellularMetrics \<Rightarrow> int \<Rightarrow> rat \<Rightarrow> rat \<Rightarrow> int \<Rightarrow> int \<Rightarrow> int \<Rightarrow> SecurityThreat" where
  "ta_impossible_threat metrics ta_change time_diff max_ta_change prev_ta ta now =
     mk_threat (''TA_IMPOSSIBLE_'' @ str_int now) ''IMPOSSIBLE_TIMING_ADVANCE_CHANGE'' ''high''
       (am_timestamp metrics)
       [(''ta_change'', PInt ta_change),
        (''time_diff'', PFloat time_diff),
        (''max_possible_change'', PFloat max_ta_change),
        (''previous_ta'', PInt prev_ta),
        (''current_ta'', PInt ta)]
       (9 / 10)"

definition detect_timing_advance_anomalies ::
  "AdvancedCellularMetrics list \<Rightarrow> AdvancedCellularMetrics \<Rightarrow> int \<Rightarrow> SecurityThreat list" where
  "detect_timing_advance_anomalies buf metrics now =
     (case timing_advance metrics of
        None \<Rightarrow> []
      | Some ta \<Rightarrow>
          (if ta = 0 then [ta_zero_threat metrics ta now] else []) @
          (if length buf > 1 then
             (let prev_metrics = buf ! (length buf - 2) in
              case timing_advance prev_metrics of
                None \<Rightarrow> []
              | Some prev_ta \<Rightarrow>
                  (let ta_change = \<bar>ta - prev_ta\<bar>;
                       time_diff =
                         of_int (am_timestamp metrics - am_timestamp prev_metrics) / 1000000;
                       max_distance_change = 300 * time_diff;
                       max_ta_change = max_distance_change / 554
                   in if of_int ta_change > max_ta_change * 2
                      then [ta_impossible_threat metrics ta_change time_diff max_ta_change
                              prev_ta ta now]
                      else []))
           else []))"

definition invalid_pci_threat :: "AdvancedCellularMetrics \<Rightarrow> int \<Rightarrow> int \<Rightarrow> SecurityThreat" where
  "invalid_pci_threat metrics p now =
     mk_threat (''INVALID_PCI_'' @ str_int now) ''INVALID_PHYSICAL_CELL_ID'' ''high''
       (am_timestamp metrics)
       [(''pci'', PInt p),
        (''valid_range'', PStr ''0-503''),
        (''tower_id'', PStr (cell_id (am_tower metrics)))]
       (9 / 10)"

definition neighbor_threat ::
  "string \<Rightarrow> string \<Rightarrow> rat \<Rightarrow> AdvancedCellularMetrics \<Rightarrow> nat \<Rightarrow> int \<Rightarrow> SecurityThreat" where
  "neighbor_threat id_prefix ty conf metrics neighbor_count now =
     mk_threat (id_prefix @ str_int now) ty ''medium'' (am_timestamp metrics)
       [(''neighbor_count'', PInt (int neighbor_count)),
        (''tower_id'', PStr (cell_id (am_tower metrics)))]
       conf"

text \<open>
  The neighbour check is guarded by the truth value of the list
  (\<^verbatim>\<open>if metrics.neighbor_cells:\<close>): an empty list is false in Python.
\<close>

definition detect_protocol_anomalies ::
  "AdvancedCellularMetrics \<Rightarrow> int \<Rightarrow> SecurityThreat list" where
  "detect_protocol_anomalies metrics now =
     (case pci metrics of
        None \<Rightarrow> []
      | Some p \<Rightarrow> if p < 0 \<or> p > 503 then [invalid_pci_threat metrics p now] else []) @
     (if neighbor_cells metrics \<noteq> [] then
        (let neighbor_count = length (neighbor_cells metrics) in
         if neighbor_count = 0 then
           [neighbor_threat ''NO_NEIGHBORS_'' ''NO_NEIGHBOR_CELLS'' (4 / 10)
              metrics neighbor_count now]
         else if neighbor_count > 20 then
           [neighbor_threat ''TOO_MANY_NEIGHBORS_'' ''EXCESSIVE_NEIGHBOR_CELLS'' (5 / 10)
              metrics neighbor_count now]
         else [])
      else [])"

text \<open>
  The truth value Python gives an optional number in a condition: \<^verbatim>\<open>None\<close> and
  zero are false. The result is the number when it is true.
\<close>

definition truthy :: "'a::zero option \<Rightarrow> 'a option" where
  "truthy x = (case x of None \<Rightarrow> None | Some v \<Rightarrow> if v = 0 then None else Some v)"

definition expected_bands :: "(string \<times> rat \<times> rat) list" where
  "expected_bands =
     [(''B3'', 1710, 1785), (''B7'', 2500, 2570), (''B20'', 832, 862),
      (''B1'', 1920, 1980), (''B8'', 880, 915)]"

definition freq_out_of_band_threat ::
  "AdvancedCellularMetrics \<Rightarrow> rat \<Rightarrow> int \<Rightarrow> SecurityThreat" where
  "freq_out_of_band_threat metrics freq_mhz now =
     mk_threat (''FREQ_ANOMALY_'' @ str_int now) ''FREQUENCY_OUT_OF_BAND'' ''high''
       (am_timestamp metrics)
       [(''frequency'', PFloat freq_mhz),
        (''standard_bands'', PList (map (\<lambda>(b, low, high). PStr b) expected_bands)),
        (''tower_id'', PStr (cell_id (am_tower metrics)))]
       (8 / 10)"

definition freq_hopping_threat ::
  "AdvancedCellularMetrics \<Rightarrow> rat list \<Rightarrow> int \<Rightarrow> SecurityThreat" where
  "freq_hopping_threat metrics recent_freqs now =
     mk_threat (''FREQ_HOPPING_'' @ str_int now) ''SUSPICIOUS_FREQUENCY_HOPPING'' ''medium''
       (am_timestamp metrics)
       [(''recent_frequencies'', PList (map PFloat recent_freqs)),
        (''frequency_count'', PInt (int (length (remdups recent_freqs))))]
       (6 / 10)"

definition detect_frequency_anomalies ::
  "AdvancedCellularMetrics list \<Rightarrow> AdvancedCellularMetrics \<Rightarrow> int \<Rightarrow> SecurityThreat list" where
  "detect_frequency_anomalies buf metrics now =
     (case truthy (downlink_frequency metrics) of
        None \<Rightarrow> []
      | Some freq_mhz \<Rightarrow>
          (let band_match =
                 list_ex (\<lambda>(b, low, high). low \<le> freq_mhz \<and> freq_mhz \<le> high) expected_bands
           in (if band_match then [] else [freq_out_of_band_threat metrics freq_mhz now]) @
              (if length buf \<ge> 5 then
                 (let recent_freqs =
                        List.map_filter (\<lambda>m. truthy (downlink_frequency m)) (last_n 5 buf)
                  in if length (remdups recent_freqs) = length recent_freqs
                        \<and> length recent_freqs \<ge> 3
                     then [freq_hopping_threat metrics recent_freqs now]
                     else [])
               else [])))"

definition power_control_threat ::
  "AdvancedCellularMetrics \<Rightarrow> int list \<Rightarrow> int list \<Rightarrow> int \<Rightarrow> int \<Rightarrow> SecurityThreat" where
  "power_control_threat metrics power_changes recent_powers current_power now =
     mk_threat (''POWER_ANOMALY_'' @ str_int now) ''SUSPICIOUS_POWER_CONTROL'' ''medium''
       (am_timestamp metrics)
       [(''power_changes'', PList (map PInt power_changes)),
        (''recent_powers'', PList (map PInt recent_powers)),
        (''current_power'', PInt current_power)]
       (5 / 10)"

definition detect_power_analysis_attacks ::
  "AdvancedCellularMetrics list \<Rightarrow> AdvancedCellularMetrics \<Rightarrow> int \<Rightarrow> SecurityThreat list" where
  "detect_power_analysis_attacks buf metrics now =
     (case truthy (uplink_power metrics) of
        None \<Rightarrow> []
      | Some p \<Rightarrow>
          (if length buf \<ge> 3 then
             (let recent_powers =
                    List.map_filter (\<lambda>m. truthy (uplink_power m)) (last_n 3 buf)
              in if length recent_powers \<ge> 3 then
                   (let power_changes =
                          map (\<lambda>i. recent_powers ! (i + 1) - recent_powers ! i)
                            [0 ..< length recent_powers - 1]
                    in if py_max power_changes > 10
                       then [power_control_threat metrics power_changes recent_powers p now]
                       else [])
                 else [])
           else []))"

section \<open>Tower registry and encryption detector\<close>

text \<open>
  The parts of \<^verbatim>\<open>CellularSecurityMonitor\<close> (\<^verbatim>\<open>cellular_security.py\<close>) that the
  registry and the encryption detector read and write: \<^verbatim>\<open>tower_database\<close>, a dict
  keyed by \<^verbatim>\<open>f"{cell_id}_{lac}"\<close>, and \<^verbatim>\<open>measurement_history\<close>, a
  \<^verbatim>\<open>deque(maxlen=config['max_measurements'])\<close>. The database holds the tower
  objects by reference; here it holds their values, which is what a lookup by key reads.
\<close>

record monitor =
  tower_database :: "string \<rightharpoonup> CellularTower"
  measurement_history :: "CellularMeasurement list"
  max_measurements :: nat

definition tower_key :: "CellularTower \<Rightarrow> string" where
  "tower_key t = cell_id t @ ''_'' @ lac t"

text \<open>
  The first block of \<^verbatim>\<open>analyze_measurement\<close>: a new key stores the measurement's
  tower as it is, a known key sets \<^verbatim>\<open>last_seen\<close> and appends the signal strength.
\<close>

definition update_tower_database ::
  "(string \<rightharpoonup> CellularTower) \<Rightarrow> CellularMeasurement \<Rightarrow> (string \<rightharpoonup> CellularTower)" where
  "update_tower_database db measurement =
     (let key = tower_key (cm_tower measurement) in
      case db key of
        None \<Rightarrow> db(key \<mapsto> cm_tower measurement)
      | Some existing_tower \<Rightarrow>
          db(key \<mapsto> existing_tower
               \<lparr>tw_last_seen := cm_timestamp measurement,
                signal_strength_history :=
                  signal_strength_history existing_tower @ [cm_signal_strength measurement]\<rparr>))"

text \<open>
  The state that \<^verbatim>\<open>analyze_measurement\<close> leaves for its detectors: the registry
  updated and the measurement appended to the history.
\<close>

definition analyze_measurement_state :: "monitor \<Rightarrow> CellularMeasurement \<Rightarrow> monitor" where
  "analyze_measurement_state s measurement =
     s\<lparr>tower_database := update_tower_database (tower_database s) measurement,
       measurement_history :=
         deque_append (max_measurements s) (measurement_history s) measurement\<rparr>"

text \<open>\<^verbatim>\<open>encryption_strength.get(e, -1)\<close> over the detector's table.\<close>

definition encryption_strength :: "string \<Rightarrow> int" where
  "encryption_strength e =
     (if e = ''A5/3'' then 3
      else if e = ''A5/1'' then 2
      else if e = ''A5/0'' then 1
      else if e = ''None'' then 0
      else if e = ''Unknown'' then - 1
      else - 1)"

definition encryption_downgrade_threat ::
  "CellularMeasurement \<Rightarrow> string \<Rightarrow> string \<Rightarrow> int \<Rightarrow> SecurityThreat" where
  "encryption_downgrade_threat measurement prev_encryption current_encryption now =
     \<lparr>threat_id = ''ENCRYPTION_DOWNGRADE_'' @ str_int now,
      threat_type = ''ENCRYPTION_DOWNGRADE'',
      severity = ''medium'',
      st_timestamp = cm_timestamp measurement,
      evidence =
        [(''previous_encryption'', PStr prev_encryption),
         (''current_encryption'', PStr current_encryption),
         (''tower_id'', PStr (cell_id (cm_tower measurement)))],
      confidence = 7 / 10,
      st_location = cm_location measurement,
      affected_towers = [cell_id (cm_tower measurement)]\<rparr>"

definition detect_encryption_anomalies ::
  "CellularMeasurement list \<Rightarrow> CellularMeasurement \<Rightarrow> int \<Rightarrow> SecurityThreat list" where
  "detect_encryption_anomalies history measurement now =
     (if length history > 1 then
        (let prev_encryption = encryption_status (history ! (length history - 2));
             current_encryption = encryption_status measurement;
             prev_strength = encryption_strength prev_encryption;
             current_strength = encryption_strength current_encryption
         in if prev_strength > current_strength \<and> current_strength \<ge> 0
            then [encryption_downgrade_threat measurement prev_encryption
                    current_encryption now]
            else [])
      else [])"

section \<open>The remote monitoring server\<close>

text \<open>
  \<^verbatim>\<open>cellular_remote_server.py\<close>. A server-side \<^verbatim>\<open>datetime\<close> counts microseconds
  and is naive (\<^verbatim>\<open>datetime.now()\<close>, a timestamp without offset) or aware (a
  timestamp with a UTC offset): Python raises \<^verbatim>\<open>TypeError\<close> when it subtracts one
  from the other. A websocket is a number; what a handler sends is the list of
  (websocket, message) pairs it passes to \<^verbatim>\<open>send_message\<close>, in order
  (\<^verbatim>\<open>send_message\<close> swallows every send error). A handler runs on one clock reading
  \<open>now\<close>; handlers of different connections are taken one message at a time.
  Strings are ASCII; message fields, when present, have their documented JSON type.
\<close>

datatype pydatetime = Naive int | Aware int

fun is_aware :: "pydatetime \<Rightarrow> bool" where
  "is_aware (Aware t) = True"
| "is_aware (Naive t) = False"

fun micros :: "pydatetime \<Rightarrow> int" where
  "micros (Aware t) = t"
| "micros (Naive t) = t"

record RemoteCellularThreat =
  rt_device_id :: string
  rt_threat_id :: string
  rt_threat_type :: string
  rt_severity :: string
  rt_timestamp :: pydatetime
  rt_location :: "(rat \<times> rat) option"
  rt_cellular_data :: "pydict option"
  rt_description :: string
  rt_confidence :: rat

text \<open>
  The \<^verbatim>\<open>timestamp\<close> field of a \<^verbatim>\<open>cellular_threat\<close> message, as
  \<^verbatim>\<open>datetime.fromisoformat\<close> reads it: absent, a string that parses, or anything
  that makes it raise.
\<close>

datatype ts_field = TsMissing | TsIso pydatetime | TsInvalid

record threat_data =
  td_threat_id :: "string option"
  td_threat_type :: "string option"
  td_severity :: "string option"
  td_timestamp :: ts_field
  td_location :: "(rat \<times> rat) option"
  td_cellular_data :: "pydict option"
  td_description :: "string option"
  td_confidence :: "rat option"

record register_data =
  rd_device_id :: "string option"
  rd_device_name :: "string option"
  rd_api_key :: "string option"

datatype client_msg =
    RegisterDevice register_data
  | CellularThreat threat_data
  | Heartbeat
  | GetStatus
  | OtherType "string option"
  | JsonNotObject
  | InvalidJson

text \<open>
  The messages the server sends. \<^verbatim>\<open>CoordinatedAttackDetected\<close> carries the primary
  threat, the related threats, \<^verbatim>\<open>device_count\<close>, the number of devices its
  \<^verbatim>\<open>message\<close> text names, and the timestamp.
\<close>

datatype server_msg =
    RegistrationSuccess string int
  | ThreatAcknowledged string int
  | HeartbeatAck int
  | StatusResponse nat nat int
  | HighPriorityAlert RemoteCellularThreat int
  | CoordinatedAttackDetected RemoteCellularThreat "RemoteCellularThreat list" nat nat int
  | ErrorMsg string int

type_synonym sent = "(nat \<times> server_msg) list"

record device_info =
  websocket :: nat
  device_name :: string
  connected_at :: int
  di_last_seen :: int
  threat_count :: nat

record threat_row =
  row_id :: nat
  row_device_id :: string
  row_threat_id :: string
  row_threat_type :: string
  row_severity :: string
  row_timestamp :: pydatetime
  row_location :: "(rat \<times> rat) option"
  row_cellular_data :: "pydict option"
  row_description :: string
  row_confidence :: rat

record session_row =
  sr_device_name :: string
  sr_last_seen :: int
  sr_connection_count :: nat
  sr_threat_count :: nat

text \<open>\<^verbatim>\<open>monitoring_rules\<close>: a key of the configuration may be missing.\<close>

record rules =
  threat_correlation :: "bool option"
  auto_export :: "bool option"

text \<open>
  The server object and its database: \<^verbatim>\<open>connected_devices\<close> is a dict in
  insertion order, \<^verbatim>\<open>cellular_threats\<close> the table with its \<^verbatim>\<open>AUTOINCREMENT\<close>
  counter, \<^verbatim>\<open>device_sessions\<close> the table keyed by device id,
  \<^verbatim>\<open>monitoring_events\<close> the rows of (event type, device id, threat), and
  \<^verbatim>\<open>exports\<close> the export files written: (time, total threats, connected devices).
\<close>

record server =
  api_keys :: "string set"
  connected_devices :: "(string \<times> device_info) list"
  threat_history :: "RemoteCellularThreat list"
  monitoring_rules :: rules
  cellular_threats :: "threat_row list"
  cellular_threats_seq :: nat
  device_sessions :: "string \<rightharpoonup> session_row"
  monitoring_events :: "(string \<times> string \<times> RemoteCellularThreat) list"
  exports :: "(int \<times> nat \<times> nat) list"

subsection \<open>Strings\<close>

definition upper_char :: "char \<Rightarrow> char" where
  "upper_char c =
     (case map_of (zip ''abcdefghijklmnopqrstuvwxyz'' ''ABCDEFGHIJKLMNOPQRSTUVWXYZ'') c of
        None \<Rightarrow> c | Some u \<Rightarrow> u)"

definition lower_char :: "char \<Rightarrow> char" where
  "lower_char c =
     (case map_of (zip ''ABCDEFGHIJKLMNOPQRSTUVWXYZ'' ''abcdefghijklmnopqrstuvwxyz'') c of
        None \<Rightarrow> c | Some l \<Rightarrow> l)"

definition upper :: "string \<Rightarrow> string" where
  "upper s = map upper_char s"

definition lower :: "string \<Rightarrow> string" where
  "lower s = map lower_char s"

text \<open>\<^verbatim>\<open>sub in s\<close> on strings.\<close>

fun py_in :: "string \<Rightarrow> string \<Rightarrow> bool" where
  "py_in sub [] = (sub = [])"
| "py_in sub (c # cs) = (take (length sub) (c # cs) = sub \<or> py_in sub cs)"

subsection \<open>Sending\<close>

definition send_message :: "nat \<Rightarrow> server_msg \<Rightarrow> sent" where
  "send_message ws message = [(ws, message)]"

definition send_error :: "nat \<Rightarrow> string \<Rightarrow> int \<Rightarrow> sent" where
  "send_error ws error_message now = send_message ws (ErrorMsg error_message now)"

text \<open>The loop over \<^verbatim>\<open>self.connected_devices.items()\<close> that sends one message to all.\<close>

definition broadcast :: "server \<Rightarrow> server_msg \<Rightarrow> sent" where
  "broadcast s message =
     concat (map (\<lambda>(device_id, info). send_message (websocket info) message)
               (connected_devices s))"

subsection \<open>Registration\<close>

definition authenticate_device :: "server \<Rightarrow> string option \<Rightarrow> bool" where
  "authenticate_device s api_key =
     (case api_key of None \<Rightarrow> False | Some k \<Rightarrow> k \<in> api_keys s)"

definition update_device_session :: "server \<Rightarrow> string \<Rightarrow> string \<Rightarrow> int \<Rightarrow> server" where
  "update_device_session s device_id name now =
     s\<lparr>device_sessions := (device_sessions s)(device_id \<mapsto>
         \<lparr>sr_device_name = name,
          sr_last_seen = now,
          sr_connection_count =
            (case device_sessions s device_id of
               None \<Rightarrow> 1 | Some r \<Rightarrow> sr_connection_count r + 1),
          sr_threat_count =
            (case device_sessions s device_id of
               None \<Rightarrow> 0 | Some r \<Rightarrow> sr_threat_count r)\<rparr>)\<rparr>"

text \<open>
  \<^verbatim>\<open>register_device\<close> returns the new server, what it sent, and its result
  (\<^verbatim>\<open>True\<close> on success). \<^verbatim>\<open>not device_id\<close> holds for a missing and for an empty id.
\<close>

definition register_device ::
  "server \<Rightarrow> nat \<Rightarrow> register_data \<Rightarrow> int \<Rightarrow> server \<times> sent \<times> bool" where
  "register_device s ws device_data now =
     (let device_id = rd_device_id device_data;
          name = (case rd_device_name device_data of
                    None \<Rightarrow> ''Unknown Device'' | Some n \<Rightarrow> n);
          api_key = rd_api_key device_data
      in if \<not> authenticate_device s api_key then
           (s, send_error ws ''Authentication failed'' now, False)
         else
           (case device_id of
              None \<Rightarrow> (s, send_error ws ''Device ID required'' now, False)
            | Some d \<Rightarrow>
                if d = [] then (s, send_error ws ''Device ID required'' now, False)
                else
                  (let s1 = s\<lparr>connected_devices :=
                               AList.update d
                                 \<lparr>websocket = ws, device_name = name, connected_at = now,
                                  di_last_seen = now, threat_count = 0\<rparr>
                                 (connected_devices s)\<rparr>;
                       s2 = update_device_session s1 d name now
                   in (s2, send_message ws (RegistrationSuccess d now), True))))"

subsection \<open>Threat ingestion\<close>

text \<open>
  \<^verbatim>\<open>INSERT OR REPLACE\<close> on the table whose \<^verbatim>\<open>threat_id\<close> is \<^verbatim>\<open>UNIQUE\<close>: the
  rows in conflict are deleted and the new row gets the next \<^verbatim>\<open>AUTOINCREMENT\<close> id.
  An empty \<^verbatim>\<open>cellular_data\<close> is stored as \<^verbatim>\<open>NULL\<close>; a location is the pair of
  its latitude and longitude.
\<close>

definition store_threat :: "server \<Rightarrow> RemoteCellularThreat \<Rightarrow> server" where
  "store_threat s threat =
     s\<lparr>cellular_threats :=
         filter (\<lambda>r. row_threat_id r \<noteq> rt_threat_id threat) (cellular_threats s) @
         [\<lparr>row_id = cellular_threats_seq s + 1,
           row_device_id = rt_device_id threat,
           row_threat_id = rt_threat_id threat,
           row_threat_type = rt_threat_type threat,
           row_severity = rt_severity threat,
           row_timestamp = rt_timestamp threat,
           row_location = rt_location threat,
           row_cellular_data =
             (case rt_cellular_data threat of
                None \<Rightarrow> None | Some c \<Rightarrow> if c = [] then None else Some c),
           row_description = rt_description threat,
           row_confidence = rt_confidence threat\<rparr>],
       cellular_threats_seq := cellular_threats_seq s + 1\<rparr>"

definition log_monitoring_event ::
  "server \<Rightarrow> string \<Rightarrow> string \<Rightarrow> RemoteCellularThreat \<Rightarrow> server" where
  "log_monitoring_event s event_type device_id event_data =
     s\<lparr>monitoring_events := monitoring_events s @ [(event_type, device_id, event_data)]\<rparr>"

definition export_threat_data :: "server \<Rightarrow> int \<Rightarrow> server" where
  "export_threat_data s now =
     s\<lparr>exports := exports s @
         [(now, length (threat_history s), length (connected_devices s))]\<rparr>"

definition send_high_priority_alert ::
  "server \<Rightarrow> RemoteCellularThreat \<Rightarrow> int \<Rightarrow> server \<times> sent" where
  "send_high_priority_alert s threat now =
     (log_monitoring_event s ''high_priority_alert'' (rt_device_id threat) threat,
      broadcast s (HighPriorityAlert threat now))"

text \<open>
  \<^verbatim>\<open>analyze_threat_patterns\<close>. The first comprehension subtracts every timestamp of
  the history from \<^verbatim>\<open>datetime.now()\<close>, so one aware timestamp raises
  \<^verbatim>\<open>TypeError\<close>: the result \<^verbatim>\<open>None\<close>. One hour is 3600000000 microseconds.
\<close>

definition recent_threats_of ::
  "RemoteCellularThreat list \<Rightarrow> RemoteCellularThreat \<Rightarrow> int \<Rightarrow> RemoteCellularThreat list" where
  "recent_threats_of history threat now =
     filter (\<lambda>t. now - micros (rt_timestamp t) < 3600000000
                 \<and> rt_device_id t \<noteq> rt_device_id threat) history"

definition imsi_threats_of ::
  "RemoteCellularThreat list \<Rightarrow> RemoteCellularThreat \<Rightarrow> int \<Rightarrow> RemoteCellularThreat list" where
  "imsi_threats_of history threat now =
     filter (\<lambda>t. py_in ''IMSI'' (upper (rt_threat_type t)))
       (recent_threats_of history threat now)"

definition analyze_threat_patterns ::
  "server \<Rightarrow> RemoteCellularThreat \<Rightarrow> int \<Rightarrow> sent option" where
  "analyze_threat_patterns s threat now =
     (if list_ex (\<lambda>t. is_aware (rt_timestamp t)) (threat_history s) then None
      else
        (let imsi_threats = imsi_threats_of (threat_history s) threat now
         in if length imsi_threats \<ge> 2 then
              Some (broadcast s
                (CoordinatedAttackDetected threat imsi_threats
                   (length (remdups (map rt_device_id imsi_threats)) + 1)
                   (length imsi_threats + 1)
                   now))
            else Some []))"

text \<open>
  \<^verbatim>\<open>process_threat_alert\<close> returns the new server, what it sent, and whether it
  returned (\<^verbatim>\<open>False\<close>: an exception left it).
\<close>

definition process_threat_alert ::
  "server \<Rightarrow> RemoteCellularThreat \<Rightarrow> int \<Rightarrow> server \<times> sent \<times> bool" where
  "process_threat_alert s threat now =
     (let (s1, out1) =
            (if lower (rt_severity threat) \<in> set [''high'', ''critical'']
             then send_high_priority_alert s threat now else (s, []))
      in case (if threat_correlation (monitoring_rules s1) \<noteq> Some False
               then analyze_threat_patterns s1 threat now else Some []) of
           None \<Rightarrow> (s1, out1, False)
         | Some out2 \<Rightarrow>
             (if auto_export (monitoring_rules s1) = Some True
              then (export_threat_data s1 now, out1 @ out2, True)
              else (s1, out1 @ out2, True)))"

text \<open>
  \<^verbatim>\<open>handle_cellular_threat\<close>: the body runs in \<^verbatim>\<open>try\<close>, and the
  \<^verbatim>\<open>except Exception\<close> only logs. What was written and sent before an exception
  stays; the acknowledgment is the last step. \<open>fresh\<close> is \<^verbatim>\<open>str(uuid.uuid4())\<close>.
\<close>

definition parse_threat ::
  "string \<Rightarrow> threat_data \<Rightarrow> int \<Rightarrow> string \<Rightarrow> RemoteCellularThreat option" where
  "parse_threat device_id d now fresh =
     (case (case td_timestamp d of
              TsMissing \<Rightarrow> Some (Naive now)
            | TsIso t \<Rightarrow> Some t
            | TsInvalid \<Rightarrow> None) of
        None \<Rightarrow> None
      | Some ts \<Rightarrow>
          Some \<lparr>rt_device_id = device_id,
                rt_threat_id = (case td_threat_id d of None \<Rightarrow> fresh | Some i \<Rightarrow> i),
                rt_threat_type =
                  (case td_threat_type d of None \<Rightarrow> ''UNKNOWN'' | Some ty \<Rightarrow> ty),
                rt_severity = (case td_severity d of None \<Rightarrow> ''low'' | Some sv \<Rightarrow> sv),
                rt_timestamp = ts,
                rt_location = td_location d,
                rt_cellular_data = td_cellular_data d,
                rt_description =
                  (case td_description d of None \<Rightarrow> [] | Some ds \<Rightarrow> ds),
                rt_confidence = (case td_confidence d of None \<Rightarrow> 0 | Some c \<Rightarrow> c)\<rparr>)"

definition update_device_stats :: "server \<Rightarrow> string \<Rightarrow> int \<Rightarrow> server" where
  "update_device_stats s device_id now =
     (case map_of (connected_devices s) device_id of
        None \<Rightarrow> s
      | Some info \<Rightarrow>
          s\<lparr>connected_devices :=
              AList.update device_id
                (info\<lparr>threat_count := threat_count info + 1, di_last_seen := now\<rparr>)
                (connected_devices s)\<rparr>)"

definition acknowledge :: "server \<Rightarrow> string \<Rightarrow> RemoteCellularThreat \<Rightarrow> int \<Rightarrow> sent" where
  "acknowledge s device_id threat now =
     (case map_of (connected_devices s) device_id of
        None \<Rightarrow> []
      | Some info \<Rightarrow>
          send_message (websocket info) (ThreatAcknowledged (rt_threat_id threat) now))"

definition handle_cellular_threat ::
  "server \<Rightarrow> string \<Rightarrow> threat_data \<Rightarrow> int \<Rightarrow> string \<Rightarrow> server \<times> sent" where
  "handle_cellular_threat s device_id d now fresh =
     (case parse_threat device_id d now fresh of
        None \<Rightarrow> (s, [])
      | Some threat \<Rightarrow>
          (let s1 = store_threat s threat;
               s2 = s1\<lparr>threat_history := threat_history s1 @ [threat]\<rparr>;
               s3 = update_device_stats s2 device_id now;
               (s4, out, returned) = process_threat_alert s3 threat now
           in if returned then (s4, out @ acknowledge s4 device_id threat now)
              else (s4, out)))"

subsection \<open>The message loop of one connection\<close>

text \<open>
  One iteration of \<^verbatim>\<open>async for message in websocket\<close> in
  \<^verbatim>\<open>handle_client_message\<close>: \<open>ws\<close> is the connection's websocket, \<open>device_id\<close>
  its local variable (\<^verbatim>\<open>None\<close> until a registration succeeds). No branch leaves
  the loop or closes the websocket.
\<close>

definition threats_today :: "server \<Rightarrow> int \<Rightarrow> nat option" where
  "threats_today s now =
     (if list_ex (\<lambda>t. is_aware (rt_timestamp t)) (threat_history s) then None
      else Some (length (filter (\<lambda>t. now - micros (rt_timestamp t) < 86400000000)
                           (threat_history s))))"

fun handle_message ::
  "server \<Rightarrow> nat \<Rightarrow> string option \<Rightarrow> int \<Rightarrow> string \<Rightarrow> client_msg
     \<Rightarrow> server \<times> string option \<times> sent" where
  "handle_message s ws device_id now fresh (RegisterDevice data) =
     (let (s1, out, success) = register_device s ws data now
      in (s1, if success then rd_device_id data else device_id, out))"
| "handle_message s ws device_id now fresh (CellularThreat data) =
     (case device_id of
        None \<Rightarrow> (s, device_id, send_error ws ''Device not registered'' now)
      | Some d \<Rightarrow>
          if d = [] then (s, device_id, send_error ws ''Device not registered'' now)
          else (let (s1, out) = handle_cellular_threat s d data now fresh
                in (s1, device_id, out)))"
| "handle_message s ws device_id now fresh Heartbeat =
     (case device_id of
        None \<Rightarrow> (s, device_id, [])
      | Some d \<Rightarrow>
          (case map_of (connected_devices s) d of
             None \<Rightarrow> (s, device_id, [])
           | Some info \<Rightarrow>
               if d = [] then (s, device_id, [])
               else (s\<lparr>connected_devices :=
                         AList.update d (info\<lparr>di_last_seen := now\<rparr>) (connected_devices s)\<rparr>,
                     device_id, send_message ws (HeartbeatAck now))))"
| "handle_message s ws device_id now fresh GetStatus =
     (case threats_today s now of
        None \<Rightarrow> (s, device_id, send_error ws ''Error processing message'' now)
      | Some n \<Rightarrow>
          (s, device_id,
           send_message ws (StatusResponse (length (connected_devices s)) n now)))"
| "handle_message s ws device_id now fresh (OtherType message_type) =
     (s, device_id,
      send_error ws
        (''Unknown message type: '' @
           (case message_type of None \<Rightarrow> ''None'' | Some ty \<Rightarrow> ty)) now)"
| "handle_message s ws device_id now fresh JsonNotObject =
     (s, device_id, send_error ws ''Error processing message'' now)"
| "handle_message s ws device_id now fresh InvalidJson =
     (s, device_id, send_error ws ''Invalid JSON message'' now)"

text \<open>
  The loop over the messages a connection receives, each with the clock reading and
  the fresh uuid of its handler, and the \<^verbatim>\<open>finally\<close> block that runs when the
  connection ends.
\<close>

fun serve ::
  "server \<Rightarrow> nat \<Rightarrow> string option \<Rightarrow> (int \<times> string \<times> client_msg) list
     \<Rightarrow> server \<times> string option \<times> sent" where
  "serve s ws device_id [] = (s, device_id, [])"
| "serve s ws device_id ((now, fresh, message) # rest) =
     (let (s1, device_id1, out1) = handle_message s ws device_id now fresh message;
          (s2, device_id2, out2) = serve s1 ws device_id1 rest
      in (s2, device_id2, out1 @ out2))"

definition cleanup :: "server \<Rightarrow> string option \<Rightarrow> server" where
  "cleanup s device_id =
     (case device_id of
        None \<Rightarrow> s
      | Some d \<Rightarrow>
          if d \<noteq> [] \<and> map_of (connected_devices s) d \<noteq> None
          then s\<lparr>connected_devices := AList.delete d (connected_devices s)\<rparr>
          else s)"

definition handle_client_message ::
  "server \<Rightarrow> nat \<Rightarrow> (int \<times> string \<times> client_msg) list \<Rightarrow> server \<times> sent" where
  "handle_client_message s ws messages =
     (let (s1, device_id, out) = serve s ws None messages
      in (cleanup s1 device_id, out))"

subsection \<open>Connections side by side\<close>

text \<open>
  Messages of several connections, in the order their handlers run: each message
  comes with its websocket, and \<open>locals ws\<close> is the \<^verbatim>\<open>device_id\<close> variable of the
  connection of websocket \<open>ws\<close>.
\<close>

fun deliver ::
  "server \<Rightarrow> (nat \<Rightarrow> string option) \<Rightarrow> (nat \<times> int \<times> string \<times> client_msg) list
     \<Rightarrow> server \<times> (nat \<Rightarrow> string option) \<times> sent" where
  "deliver s locals [] = (s, locals, [])"
| "deliver s locals ((ws, now, fresh, message) # rest) =
     (let (s1, device_id1, out1) = handle_message s ws (locals ws) now fresh message;
          (s2, locals2, out2) = deliver s1 (locals(ws := device_id1)) rest
      in (s2, locals2, out1 @ out2))"

subsection \<open>Observations on a run\<close>




fun is_coordinated :: "server_msg \<Rightarrow> bool" where
  "is_coordinated (CoordinatedAttackDetected p r c n t) = True"
| "is_coordinated m = False"

text \<open>The coordinated alerts among the messages sent to websocket \<open>ws\<close>.\<close>

definition coordinated_to :: "nat \<Rightarrow> sent \<Rightarrow> server_msg list" where
  "coordinated_to ws out = map snd (filter (\<lambda>(w, m). w = ws \<and> is_coordinated m) out)"

text \<open>The device ids of an alert: the primary threat's and the related threats'.\<close>

fun alert_devices :: "server_msg \<Rightarrow> string set" where
  "alert_devices (CoordinatedAttackDetected p r c n t) =
     insert (rt_device_id p) (set (map rt_device_id r))"
| "alert_devices m = {}"

section \<open>Concrete inputs\<close>

definition tower0 :: CellularTower where
  "tower0 =
     \<lparr>cell_id = ''CELL_1'', lac = ''LAC_1'', mcc = ''310'', mnc = ''260'',
      tw_technology = ''4G'', frequency = None, tw_location = None, first_seen = 0,
      tw_last_seen = 0, signal_strength_history = []\<rparr>"

definition sample0 :: AdvancedCellularMetrics where
  "sample0 =
     \<lparr>am_timestamp = 0, am_tower = tower0, am_signal_strength = - 85,
      am_signal_quality = 20, timing_advance = None, frame_number = None, arfcn = None,
      pci = None, rsrp = None, rsrq = None, sinr = None, cqi = None, neighbor_cells = [],
      uplink_power = None, downlink_frequency = None, uplink_frequency = None,
      band = None, ca_bands = []\<rparr>"

text \<open>Two samples one second apart: timing advance 5, then 6 (or 7).\<close>

definition ta_prev :: AdvancedCellularMetrics where
  "ta_prev = sample0\<lparr>timing_advance := Some 5\<rparr>"

definition ta_next :: "int \<Rightarrow> AdvancedCellularMetrics" where
  "ta_next ta = sample0\<lparr>am_timestamp := 1000000, timing_advance := Some ta\<rparr>"

definition measurement0 :: "string \<Rightarrow> CellularMeasurement" where
  "measurement0 enc =
     \<lparr>cm_timestamp = 10000000, cm_tower = tower0, cm_signal_strength = - 80,
      cm_signal_quality = None, cm_technology = ''4G'', encryption_status = enc,
      serving_tower = True, neighbor_towers = [], cm_location = None,
      device_movement_speed = None\<rparr>"

text \<open>A monitor that knows \<open>tower0\<close> with \<open>n\<close> recorded signal strengths.\<close>

definition monitor_with :: "nat \<Rightarrow> CellularMeasurement list \<Rightarrow> monitor" where
  "monitor_with n history =
     \<lparr>tower_database =
        [tower_key tower0 \<mapsto> tower0\<lparr>signal_strength_history := replicate n (- 85)\<rparr>],
      measurement_history = history, max_measurements = 10000\<rparr>"

text \<open>
  A server as \<^verbatim>\<open>__init__\<close> leaves it with the default configuration file and one
  API key.
\<close>

definition server0 :: server where
  "server0 =
     \<lparr>api_keys = {''demo-key-123''},
      connected_devices = [],
      threat_history = [],
      monitoring_rules = \<lparr>threat_correlation = Some True, auto_export = Some True\<rparr>,
      cellular_threats = [],
      cellular_threats_seq = 0,
      device_sessions = Map.empty,
      monitoring_events = [],
      exports = []\<rparr>"

definition registration :: "string \<Rightarrow> string \<Rightarrow> client_msg" where
  "registration device key =
     RegisterDevice
       \<lparr>rd_device_id = Some device, rd_device_name = Some ''iPhone'', rd_api_key = Some key\<rparr>"

definition threat_message :: "string \<Rightarrow> string \<Rightarrow> string \<Rightarrow> ts_field \<Rightarrow> client_msg" where
  "threat_message tid ty sev ts =
     CellularThreat
       \<lparr>td_threat_id = Some tid, td_threat_type = Some ty, td_severity = Some sev,
        td_timestamp = ts, td_location = None, td_cellular_data = None,
        td_description = None, td_confidence = Some (7 / 10)\<rparr>"

text \<open>The threat the server builds from \<open>threat_message\<close> sent by \<open>device\<close>.\<close>

definition threat_of :: "string \<Rightarrow> string \<Rightarrow> string \<Rightarrow> string \<Rightarrow> int \<Rightarrow> RemoteCellularThreat" where
  "threat_of device tid ty sev t =
     \<lparr>rt_device_id = device, rt_threat_id = tid, rt_threat_type = ty, rt_severity = sev,
      rt_timestamp = Naive t, rt_location = None, rt_cellular_data = None,
      rt_description = [], rt_confidence = 7 / 10\<rparr>"

text \<open>
  Device B (websocket 2) and device A (websocket 1) register; B reports two IMSI
  catcher threats, then A reports one, all within five minutes.
\<close>

definition two_device_run :: "(nat \<times> int \<times> string \<times> client_msg) list" where
  "two_device_run =
     [(2, 0, ''u0'', registration ''B'' ''demo-key-123''),
      (1, 1000000, ''u1'', registration ''A'' ''demo-key-123''),
      (2, 60000000, ''u2'',
         threat_message ''B-1'' ''IMSI_CATCHER_SUSPECTED'' ''low'' (TsIso (Naive 60000000))),
      (2, 120000000, ''u3'',
         threat_message ''B-2'' ''IMSI_CATCHER_SUSPECTED'' ''low'' (TsIso (Naive 120000000))),
      (1, 180000000, ''u4'',
         threat_message ''A-1'' ''IMSI_CATCHER_SUSPECTED'' ''low'' (TsIso (Naive 180000000)))]"








section \<open>Properties of the advanced detectors\<close>

subsection \<open>Timing-advance changes\<close>

text \<open>
  When the detector compares the sample with the previous one, it flags the change
  exactly when \<open>|\<Delta>TA| > 2 \<cdot> (300 \<cdot> \<Delta>t / 554)\<close> with \<open>\<Delta>t\<close> in seconds: the
  300 is multiplied by seconds as it stands.
\<close>

lemma impossible_ta_change_condition:
  assumes "length buf > 1"
    and "timing_advance metrics = Some ta"
    and "timing_advance (buf ! (length buf - 2)) = Some prev_ta"
  shows "(\<exists>t \<in> set (detect_timing_advance_anomalies buf metrics now).
            threat_type t = ''IMPOSSIBLE_TIMING_ADVANCE_CHANGE'')
         \<longleftrightarrow>
         of_int \<bar>ta - prev_ta\<bar> >
           (300 * (of_int (am_timestamp metrics - am_timestamp (buf ! (length buf - 2)))
                     / 1000000) / 554 :: rat) * 2"
  using assms
  by (auto simp: detect_timing_advance_anomalies_def ta_zero_threat_def
        ta_impossible_threat_def mk_threat_def Let_def)

text \<open>
  Claim C2 at \<open>\<Delta>t = 1 s\<close>. The previous sample has timing advance 5. A change of 1
  is not flagged: the detector returns no threat. A change of 2 is flagged, and the
  evidence shows the bound the detector computed, \<open>150 / 277 \<approx> 0.54\<close> and not 0.15.
\<close>

theorem ta_change_of_one_not_flagged:
  "detect_timing_advance_anomalies [ta_prev, ta_next 6] (ta_next 6) 1700000000 = []
   \<and> map (\<lambda>t. (threat_type t, severity t, confidence t, evidence t))
       (detect_timing_advance_anomalies [ta_prev, ta_next 7] (ta_next 7) 1700000000)
     = [(''IMPOSSIBLE_TIMING_ADVANCE_CHANGE'', ''high'', 9 / 10,
         [(''ta_change'', PInt 2), (''time_diff'', PFloat 1),
          (''max_possible_change'', PFloat (150 / 277)),
          (''previous_ta'', PInt 5), (''current_ta'', PInt 7)])]"
  by (simp add: detect_timing_advance_anomalies_def ta_prev_def ta_next_def sample0_def
        ta_impossible_threat_def mk_threat_def Let_def)

subsection \<open>Protocol anomalies\<close>

text \<open>
  The branch that builds \<^verbatim>\<open>NO_NEIGHBOR_CELLS\<close> is inside the test that the
  neighbour list is non-empty, so no input reaches it.
\<close>

lemma no_neighbor_cells_unreachable:
  "\<not> (\<exists>t \<in> set (detect_protocol_anomalies metrics now).
         threat_type t = ''NO_NEIGHBOR_CELLS'')"
  by (auto simp: detect_protocol_anomalies_def invalid_pci_threat_def neighbor_threat_def
        mk_threat_def Let_def split: option.splits)

text \<open>
  Claim C6 at a sample whose neighbour list is present and empty: the detector
  returns no threat, so no \<^verbatim>\<open>NO_NEIGHBOR_CELLS\<close>.
\<close>

theorem empty_neighbor_list_no_threat:
  "neighbor_cells sample0 = [] \<and> detect_protocol_anomalies sample0 1700000000 = []"
  by (simp add: detect_protocol_anomalies_def sample0_def)

text \<open>
  Claim C9: for a sample whose PCI is present, \<^verbatim>\<open>INVALID_PHYSICAL_CELL_ID\<close> is
  among the threats exactly when the PCI is below 0 or above 503, and every such
  threat has severity high and confidence 0.9.
\<close>

theorem invalid_pci_exactly_outside_range:
  assumes "pci metrics = Some p"
  shows "((\<exists>t \<in> set (detect_protocol_anomalies metrics now).
              threat_type t = ''INVALID_PHYSICAL_CELL_ID'') \<longleftrightarrow> (p < 0 \<or> p > 503))
         \<and> (\<forall>t \<in> set (detect_protocol_anomalies metrics now).
              threat_type t = ''INVALID_PHYSICAL_CELL_ID'' \<longrightarrow>
              severity t = ''high'' \<and> confidence t = 9 / 10)"
  using assms
  by (auto simp: detect_protocol_anomalies_def invalid_pci_threat_def neighbor_threat_def
        mk_threat_def Let_def)

text \<open>The boundaries: PCI 0 and 503 do not fire, PCI \<open>-1\<close> and 504 do.\<close>

theorem invalid_pci_boundaries_witness:
  "\<not> (\<exists>t \<in> set (detect_protocol_anomalies (sample0\<lparr>pci := Some 0\<rparr>) 1700000000).
         threat_type t = ''INVALID_PHYSICAL_CELL_ID'')
   \<and> \<not> (\<exists>t \<in> set (detect_protocol_anomalies (sample0\<lparr>pci := Some 503\<rparr>) 1700000000).
         threat_type t = ''INVALID_PHYSICAL_CELL_ID'')
   \<and> (\<exists>t \<in> set (detect_protocol_anomalies (sample0\<lparr>pci := Some (- 1)\<rparr>) 1700000000).
         threat_type t = ''INVALID_PHYSICAL_CELL_ID'' \<and> severity t = ''high''
         \<and> confidence t = 9 / 10)
   \<and> (\<exists>t \<in> set (detect_protocol_anomalies (sample0\<lparr>pci := Some 504\<rparr>) 1700000000).
         threat_type t = ''INVALID_PHYSICAL_CELL_ID'' \<and> severity t = ''high''
         \<and> confidence t = 9 / 10)"
proof -
  have p: "\<And>p. pci (sample0\<lparr>pci := Some p\<rparr>) = Some p" by simp
  show ?thesis
    using invalid_pci_exactly_outside_range [OF p [of 0], of 1700000000]
      invalid_pci_exactly_outside_range [OF p [of 503], of 1700000000]
      invalid_pci_exactly_outside_range [OF p [of "- 1"], of 1700000000]
      invalid_pci_exactly_outside_range [OF p [of 504], of 1700000000]
    by auto
qed

subsection \<open>Zero frequency and zero power\<close>

text \<open>
  Claim C10: a sample whose downlink frequency is 0 gets the empty list from the
  frequency detector, as a sample without downlink frequency does, although 0 MHz is
  in none of the accepted bands; a sample whose uplink power is 0 gets the empty list
  from the power detector, as a sample without uplink power does.
\<close>

theorem zero_field_treated_as_absent:
  "(downlink_frequency metrics = Some 0 \<longrightarrow>
      detect_frequency_anomalies buf metrics now = []
      \<and> detect_frequency_anomalies buf (metrics\<lparr>downlink_frequency := None\<rparr>) now = [])
   \<and> \<not> list_ex (\<lambda>(b, low, high). low \<le> 0 \<and> 0 \<le> high) expected_bands
   \<and> (uplink_power metrics = Some 0 \<longrightarrow>
      detect_power_analysis_attacks buf metrics now = []
      \<and> detect_power_analysis_attacks buf (metrics\<lparr>uplink_power := None\<rparr>) now = [])"
  by (simp add: detect_frequency_anomalies_def detect_power_analysis_attacks_def
        truthy_def expected_bands_def)

text \<open>
  At a concrete sample, with a buffer of one sample. A frequency of 1 MHz, for
  comparison, is reported as out of band.
\<close>

theorem zero_field_treated_as_absent_witness:
  "downlink_frequency (sample0\<lparr>downlink_frequency := Some 0, uplink_power := Some 0\<rparr>) = Some 0
   \<and> detect_frequency_anomalies [sample0]
       (sample0\<lparr>downlink_frequency := Some 0, uplink_power := Some 0\<rparr>) 1700000000 = []
   \<and> uplink_power (sample0\<lparr>downlink_frequency := Some 0, uplink_power := Some 0\<rparr>) = Some 0
   \<and> detect_power_analysis_attacks [sample0]
       (sample0\<lparr>downlink_frequency := Some 0, uplink_power := Some 0\<rparr>) 1700000000 = []
   \<and> map threat_type (detect_frequency_anomalies [sample0]
       (sample0\<lparr>downlink_frequency := Some 1\<rparr>) 1700000000) = [''FREQUENCY_OUT_OF_BAND'']"
proof -
  have f: "map threat_type (detect_frequency_anomalies [sample0]
       (sample0\<lparr>downlink_frequency := Some 1\<rparr>) 1700000000) = [''FREQUENCY_OUT_OF_BAND'']"
    by (simp add: detect_frequency_anomalies_def truthy_def expected_bands_def
          freq_out_of_band_threat_def mk_threat_def)
  show ?thesis
    using zero_field_treated_as_absent
      [of "sample0\<lparr>downlink_frequency := Some 0, uplink_power := Some 0\<rparr>"
          "[sample0]" 1700000000] f
    by simp
qed

section \<open>Properties of the tower registry and the encryption detector\<close>

lemma last_n_two:
  assumes "2 \<le> k" and "xs \<noteq> []"
  shows "length (last_n k (xs @ [x])) > 1
         \<and> last_n k (xs @ [x]) ! (length (last_n k (xs @ [x])) - 2) = last xs"
proof -
  let ?ys = "xs @ [x]"
  let ?d = "length ?ys - k"
  have len: "length (last_n k ?ys) = length ?ys - ?d" by (simp add: last_n_def)
  have l2: "length ?ys \<ge> 2" using assms(2) by (cases xs) auto
  have gt: "length ?ys - ?d > 1" using assms(1) l2 by arith
  have idx: "?d + (length ?ys - ?d - 2) = length xs - 1" using assms l2 by (simp; arith)
  have "last_n k ?ys ! (length (last_n k ?ys) - 2) = ?ys ! (?d + (length ?ys - ?d - 2))"
    unfolding len last_n_def using gt by (subst nth_drop) auto
  also have "\<dots> = ?ys ! (length xs - 1)" using idx by simp
  also have "\<dots> = last xs" using assms(2) by (simp add: nth_append last_conv_nth)
  finally show ?thesis using gt len by simp
qed

text \<open>
  In \<^verbatim>\<open>analyze_measurement\<close> the detector runs on the history to which the current
  measurement has been appended: with room for two measurements, the entry it reads
  as the previous one is the last measurement analysed before.
\<close>

lemma previous_measurement_after_append:
  assumes "2 \<le> max_measurements s" and "measurement_history s \<noteq> []"
  shows "detect_encryption_anomalies
           (measurement_history (analyze_measurement_state s m)) m now
         = detect_encryption_anomalies [last (measurement_history s), m] m now"
  using last_n_two [OF assms, of m]
  by (simp add: detect_encryption_anomalies_def analyze_measurement_state_def
        deque_append_def Let_def)

text \<open>
  Claim C7. The ranks are A5/3 = 3, A5/1 = 2, A5/0 = 1, None = 0, Unknown = \<open>-1\<close>.
  On a history that ends with the previous and the current measurement, the detector
  emits a threat exactly when the previous rank is greater than the current rank and
  the current rank is at least 0; it emits at most one, an
  \<^verbatim>\<open>ENCRYPTION_DOWNGRADE\<close> of severity medium and confidence 0.7. Unknown followed by
  A5/1 emits none.
\<close>

theorem encryption_downgrade_exactly_on_decrease:
  "encryption_strength ''A5/3'' = 3 \<and> encryption_strength ''A5/1'' = 2
   \<and> encryption_strength ''A5/0'' = 1 \<and> encryption_strength ''None'' = 0
   \<and> encryption_strength ''Unknown'' = - 1
   \<and> detect_encryption_anomalies (h @ [prev, m]) m now =
       (if encryption_strength (encryption_status prev)
             > encryption_strength (encryption_status m)
           \<and> encryption_strength (encryption_status m) \<ge> 0
        then [encryption_downgrade_threat m (encryption_status prev) (encryption_status m) now]
        else [])
   \<and> threat_type (encryption_downgrade_threat m e e' now) = ''ENCRYPTION_DOWNGRADE''
   \<and> severity (encryption_downgrade_threat m e e' now) = ''medium''
   \<and> confidence (encryption_downgrade_threat m e e' now) = 7 / 10
   \<and> detect_encryption_anomalies (h @ [measurement0 ''Unknown'', measurement0 ''A5/1''])
       (measurement0 ''A5/1'') now = []"
  by (simp add: detect_encryption_anomalies_def encryption_strength_def
        encryption_downgrade_threat_def measurement0_def Let_def nth_append)

text \<open>
  Two concrete pairs: A5/3 followed by None fires, Unknown followed by A5/1 does
  not.
\<close>

theorem encryption_downgrade_witness:
  "map (\<lambda>t. (threat_type t, severity t, confidence t))
     (detect_encryption_anomalies [measurement0 ''A5/3'', measurement0 ''None'']
        (measurement0 ''None'') 1700000000)
     = [(''ENCRYPTION_DOWNGRADE'', ''medium'', 7 / 10)]
   \<and> detect_encryption_anomalies [measurement0 ''Unknown'', measurement0 ''A5/1'']
        (measurement0 ''A5/1'') 1700000000 = []"
  using encryption_downgrade_exactly_on_decrease
      [of "[]" "measurement0 ''A5/3''" "measurement0 ''None''" 1700000000]
    encryption_downgrade_exactly_on_decrease
      [of "[]" "measurement0 ''Unknown''" "measurement0 ''A5/1''" 1700000000]
  by (simp add: measurement0_def)

text \<open>
  Claim C8 as stated fails: a known tower with 1000 recorded signal strengths has
  1001 after one more measurement.
\<close>

theorem signal_history_cap_counterexample:
  "map_option (\<lambda>tw. length (signal_strength_history tw))
     (tower_database (monitor_with 1000 []) (tower_key (cm_tower (measurement0 ''A5/3''))))
     = Some 1000
   \<and> map_option (\<lambda>tw. length (signal_strength_history tw))
       (tower_database (analyze_measurement_state (monitor_with 1000 []) (measurement0 ''A5/3''))
          (tower_key (cm_tower (measurement0 ''A5/3''))))
     = Some 1001"
  by (simp add: monitor_with_def analyze_measurement_state_def update_tower_database_def
        measurement0_def Let_def)

text \<open>
  Claim C8 as amended: a measurement analysed against a known tower appends its signal
  strength to the tower's history, which thereby grows by exactly one entry whatever
  its length, and sets \<^verbatim>\<open>last_seen\<close>.
\<close>

theorem known_tower_history_appended:
  assumes "tower_database s (tower_key (cm_tower m)) = Some tw"
  shows "\<exists>tw'. tower_database (analyze_measurement_state s m) (tower_key (cm_tower m)) = Some tw'
           \<and> signal_strength_history tw'
               = signal_strength_history tw @ [cm_signal_strength m]
           \<and> length (signal_strength_history tw') = length (signal_strength_history tw) + 1
           \<and> tw_last_seen tw' = cm_timestamp m"
  using assms
  by (simp add: analyze_measurement_state_def update_tower_database_def Let_def)

theorem known_tower_history_appended_witness:
  "tower_database (monitor_with 3 []) (tower_key (cm_tower (measurement0 ''A5/3'')))
     = Some (tower0\<lparr>signal_strength_history := [- 85, - 85, - 85]\<rparr>)
   \<and> (\<exists>tw'. tower_database
               (analyze_measurement_state (monitor_with 3 []) (measurement0 ''A5/3''))
               (tower_key (cm_tower (measurement0 ''A5/3''))) = Some tw'
          \<and> signal_strength_history tw' = [- 85, - 85, - 85, - 80]
          \<and> length (signal_strength_history tw') = 4
          \<and> tw_last_seen tw' = 10000000)"
proof -
  have h: "tower_database (monitor_with 3 []) (tower_key (cm_tower (measurement0 ''A5/3'')))
     = Some (tower0\<lparr>signal_strength_history := [- 85, - 85, - 85]\<rparr>)"
    by (simp add: monitor_with_def measurement0_def numeral_3_eq_3)
  show ?thesis
    using h known_tower_history_appended [OF h]
    by (auto simp: measurement0_def)
qed

section \<open>Properties of the server\<close>

subsection \<open>Registration\<close>

text \<open>
  Claim C3 as stated fails. A registration with a valid API key and an empty device id
  is answered with the error \<^verbatim>\<open>Device ID required\<close>, not
  \<^verbatim>\<open>Authentication failed\<close>. And a failed registration does not end the
  connection: after a registration with a wrong key the same connection registers
  with the right one.
\<close>

theorem register_empty_device_id_counterexample:
  "''demo-key-123'' \<in> api_keys server0
   \<and> snd (handle_message server0 7 None 100 ''u0'' (registration [] ''demo-key-123''))
       = (None, [(7, ErrorMsg ''Device ID required'' 100)])
   \<and> snd (handle_message server0 7 None 100 ''u0'' (registration [] ''demo-key-123''))
       \<noteq> (None, [(7, ErrorMsg ''Authentication failed'' 100)])
   \<and> snd (serve server0 7 None
             [(100, ''u0'', registration ''iphone-1'' ''wrong-key''),
              (200, ''u1'', registration ''iphone-1'' ''demo-key-123'')])
       = (Some ''iphone-1'',
          [(7, ErrorMsg ''Authentication failed'' 100),
           (7, RegistrationSuccess ''iphone-1'' 200)])"
  by (simp add: server0_def registration_def register_device_def authenticate_device_def
        send_error_def send_message_def update_device_session_def Let_def)

text \<open>
  Claim C3 as amended. For a \<^verbatim>\<open>register_device\<close> message on a connection with
  websocket \<open>ws\<close>:
  \<^item> if the API key is in the valid set and the device id is non-empty, the server
    replies \<^verbatim>\<open>registration_success\<close>, the connection is registered under the
    device id and the device is connected with this websocket;
  \<^item> if the API key is missing or not in the valid set, the server replies the error
    \<^verbatim>\<open>Authentication failed\<close>;
  \<^item> if the API key is valid and the device id is missing or empty, the server
    replies the error \<^verbatim>\<open>Device ID required\<close>;
  \<^item> in both failure cases the server and the connection's registration are
    unchanged and the connection stays open: the loop goes on with the next messages.
\<close>

theorem register_device_replies:
  "(rd_api_key data = Some k \<and> k \<in> api_keys s \<and> rd_device_id data = Some d \<and> d \<noteq> [] \<longrightarrow>
      (\<exists>s'. handle_message s ws dev now fresh (RegisterDevice data)
               = (s', Some d, [(ws, RegistrationSuccess d now)])
           \<and> map_option websocket (map_of (connected_devices s') d) = Some ws))
   \<and> (rd_api_key data = None \<or> (\<exists>k. rd_api_key data = Some k \<and> k \<notin> api_keys s) \<longrightarrow>
        handle_message s ws dev now fresh (RegisterDevice data)
          = (s, dev, [(ws, ErrorMsg ''Authentication failed'' now)])
        \<and> serve s ws dev ((now, fresh, RegisterDevice data) # rest)
          = (case serve s ws dev rest of
               (s2, dev2, out2) \<Rightarrow>
                 (s2, dev2, (ws, ErrorMsg ''Authentication failed'' now) # out2)))
   \<and> (rd_api_key data = Some k \<and> k \<in> api_keys s
        \<and> (rd_device_id data = None \<or> rd_device_id data = Some []) \<longrightarrow>
        handle_message s ws dev now fresh (RegisterDevice data)
          = (s, dev, [(ws, ErrorMsg ''Device ID required'' now)])
        \<and> serve s ws dev ((now, fresh, RegisterDevice data) # rest)
          = (case serve s ws dev rest of
               (s2, dev2, out2) \<Rightarrow>
                 (s2, dev2, (ws, ErrorMsg ''Device ID required'' now) # out2)))"
  by (auto simp: register_device_def authenticate_device_def send_error_def
        send_message_def update_device_session_def Let_def update_conv'
        split: option.splits prod.splits)

theorem register_device_replies_witness:
  "snd (handle_message server0 7 None 100 ''u0'' (registration ''iphone-1'' ''demo-key-123''))
     = (Some ''iphone-1'', [(7, RegistrationSuccess ''iphone-1'' 100)])
   \<and> handle_message server0 7 None 100 ''u0'' (registration ''iphone-1'' ''wrong-key'')
     = (server0, None, [(7, ErrorMsg ''Authentication failed'' 100)])
   \<and> handle_message server0 7 None 100 ''u0'' (registration [] ''demo-key-123'')
     = (server0, None, [(7, ErrorMsg ''Device ID required'' 100)])"
proof -
  have key: "''demo-key-123'' \<in> api_keys server0" "''wrong-key'' \<notin> api_keys server0"
    by (simp_all add: server0_def)
  show ?thesis
    using key
      register_device_replies
        [of "\<lparr>rd_device_id = Some ''iphone-1'', rd_device_name = Some ''iPhone'',
              rd_api_key = Some ''demo-key-123''\<rparr>"
            "''demo-key-123''" server0 "''iphone-1''" 7 None 100 "''u0''" "[]"]
      register_device_replies
        [of "\<lparr>rd_device_id = Some ''iphone-1'', rd_device_name = Some ''iPhone'',
              rd_api_key = Some ''wrong-key''\<rparr>"
            "''wrong-key''" server0 "''iphone-1''" 7 None 100 "''u0''" "[]"]
      register_device_replies
        [of "\<lparr>rd_device_id = Some [], rd_device_name = Some ''iPhone'',
              rd_api_key = Some ''demo-key-123''\<rparr>"
            "''demo-key-123''" server0 "[]" 7 None 100 "''u0''" "[]"]
    unfolding registration_def
    by (simp del: handle_message.simps) force
qed
subsection \<open>Resubmitting a threat\<close>











subsection \<open>Coordinated alerts\<close>

text \<open>
  Claim C1 at three threats of two devices. Device B reports two IMSI catcher
  threats and device A reports one, within three minutes. On A's report the server
  broadcasts \<^verbatim>\<open>coordinated_attack_detected\<close>: the related threats are B's two, the
  reported \<^verbatim>\<open>device_count\<close> is 2, the message text names 3 devices, and the device
  ids of the primary and the related threats are A and B.
\<close>

theorem coordinated_alert_with_two_devices:
  "coordinated_to 1 (snd (snd (deliver server0 (\<lambda>w. None) two_device_run)))
     = [CoordinatedAttackDetected
          (threat_of ''A'' ''A-1'' ''IMSI_CATCHER_SUSPECTED'' ''low'' 180000000)
          [threat_of ''B'' ''B-1'' ''IMSI_CATCHER_SUSPECTED'' ''low'' 60000000,
           threat_of ''B'' ''B-2'' ''IMSI_CATCHER_SUSPECTED'' ''low'' 120000000]
          2 3 180000000]
   \<and> map alert_devices
         (coordinated_to 1 (snd (snd (deliver server0 (\<lambda>w. None) two_device_run))))
     = [{''A'', ''B''}]"
  by code_simp





end
